theory Spec2Isabelle
  imports Complex_Main
begin

text \<open>
  A model of the trading core of Sentinel-Agent: the strategy (\<open>analyzeMarket\<close> and
  \<open>calculateConfidence\<close>), the risk module (\<open>calculateDynamicRisk\<close> and
  \<open>validateRiskParameters\<close>) and the token-bucket \<open>RateLimiter\<close>. Each function of
  the source is a function here under its own name; a thrown error is a value \<open>Inl\<close>
  of a sum type, and the mutable state of the limiter is passed in and returned.
\<close>

section \<open>Numbers\<close>

text \<open>
  The program computes with JavaScript numbers. Finite numbers are modelled as reals, so
  the arithmetic below is exact: the binary rounding of each single operation is not part
  of the model. The two non-finite outcomes the code can produce from finite operands,
  a division by zero and the rounding of such a value, are modelled explicitly by the
  type \<open>number\<close>.
\<close>

datatype number = Num real | NaN | PosInfinity | NegInfinity

text \<open>
  \<open>x / y\<close> in JavaScript. A zero divisor is taken to be \<open>+0\<close>, which is what
  \<open>Math.abs\<close> and a non-negative literal produce.
\<close>

definition js_div :: "real \<Rightarrow> real \<Rightarrow> number" where
  "js_div x y =
     (if y \<noteq> 0 then Num (x / y)
      else if x = 0 then NaN
      else if 0 < x then PosInfinity
      else NegInfinity)"

text \<open>\<open>a < b\<close> and \<open>a > b\<close> on numbers: every comparison with \<open>NaN\<close> is false.\<close>

fun js_less :: "number \<Rightarrow> number \<Rightarrow> bool" where
  "js_less (Num x) (Num y) = (x < y)"
| "js_less NaN _ = False"
| "js_less _ NaN = False"
| "js_less NegInfinity NegInfinity = False"
| "js_less NegInfinity _ = True"
| "js_less _ NegInfinity = False"
| "js_less PosInfinity _ = False"
| "js_less _ PosInfinity = True"

text \<open>
  \<open>parseFloat(x.toFixed(d))\<close>: the decimal with \<open>d\<close> fraction digits nearest to
  \<open>x\<close>, a tie going away from zero.
\<close>

definition toFixed :: "nat \<Rightarrow> real \<Rightarrow> real" where
  "toFixed d x =
     (if 0 \<le> x then real_of_int \<lfloor>x * 10 ^ d + 1 / 2\<rfloor> / 10 ^ d
      else - (real_of_int \<lfloor>- x * 10 ^ d + 1 / 2\<rfloor> / 10 ^ d))"

text \<open>\<open>toFixed\<close> prints a non-finite number by name and \<open>parseFloat\<close> reads it back.\<close>

definition toFixedN :: "nat \<Rightarrow> number \<Rightarrow> number" where
  "toFixedN d v = (case v of Num x \<Rightarrow> Num (toFixed d x) | _ \<Rightarrow> v)"

text \<open>\<open>Math.round\<close>: the nearest integer, a tie going up.\<close>

definition Math_round :: "real \<Rightarrow> real" where
  "Math_round x = real_of_int \<lfloor>x + 1 / 2\<rfloor>"

definition Math_roundN :: "number \<Rightarrow> number" where
  "Math_roundN v = (case v of Num x \<Rightarrow> Num (Math_round x) | _ \<Rightarrow> v)"

text \<open>\<open>v * c\<close> for a positive finite constant \<open>c\<close>: infinities and \<open>NaN\<close> stay.\<close>

definition js_scale :: "number \<Rightarrow> real \<Rightarrow> number" where
  "js_scale v c = (case v of Num x \<Rightarrow> Num (x * c) | _ \<Rightarrow> v)"

text \<open>\<open>v + c\<close> for a finite \<open>c\<close>.\<close>

definition js_plus :: "number \<Rightarrow> real \<Rightarrow> number" where
  "js_plus v c = (case v of Num x \<Rightarrow> Num (x + c) | _ \<Rightarrow> v)"

text \<open>\<open>Math.min(v, c)\<close> for a finite \<open>c\<close>: \<open>NaN\<close> wins over everything.\<close>

definition Math_min2 :: "number \<Rightarrow> real \<Rightarrow> number" where
  "Math_min2 v c =
     (case v of
        Num x \<Rightarrow> Num (min x c)
      | PosInfinity \<Rightarrow> Num c
      | NegInfinity \<Rightarrow> NegInfinity
      | NaN \<Rightarrow> NaN)"

text \<open>
  \<open>Math.min(...xs)\<close> and \<open>Math.max(...xs)\<close>. They are applied to the five lows and
  highs that remain after the length guard, never to an empty list.
\<close>

definition Math_min :: "real list \<Rightarrow> real" where
  "Math_min xs = Min (set xs)"

definition Math_max :: "real list \<Rightarrow> real" where
  "Math_max xs = Max (set xs)"

text \<open>\<open>xs.slice(-n)\<close>: the last \<open>n\<close> elements, all of them when there are fewer.\<close>

definition slice_last :: "nat \<Rightarrow> 'a list \<Rightarrow> 'a list" where
  "slice_last n xs = drop (length xs - n) xs"

text \<open>A parameter or property with a default: the default applies when it is absent.\<close>

definition withDefault :: "'a \<Rightarrow> 'a option \<Rightarrow> 'a" where
  "withDefault d v = (case v of None \<Rightarrow> d | Some x \<Rightarrow> x)"

section \<open>Data model\<close>

record candle =
  opn :: real
  high :: real
  low :: real
  close :: real
  volume :: real

datatype signalKind = BUY | SELL | HOLD

datatype trendKind = BULLISH | BEARISH | NEUTRAL

datatype positionSide = LONG | SHORT

record indicatorSnapshot =
  ema9 :: real
  ema21 :: real
  rsi :: real

record crossoverFlags =
  bullish :: bool
  bearish :: bool

text \<open>
  The object returned by \<open>analyzeMarket\<close>. Its \<open>timestamp\<close> (the candle's, or the wall
  clock when the candle has none) and its \<open>candles\<close> summary play no part in any
  computation and are left out.
\<close>

record marketSignal =
  signal :: signalKind
  confidence :: number
  indicators :: indicatorSnapshot
  trend :: trendKind
  crossover :: crossoverFlags
  currentPrice :: real

text \<open>
  The object returned by \<open>calculateDynamicRisk\<close>. The HOLD variant has \<open>null\<close> for
  \<open>side\<close>, \<open>stopLoss\<close> and \<open>takeProfit\<close> and has no \<open>stopLossPercent\<close> and
  \<open>takeProfitPercent\<close> at all; all five are options.
\<close>

record riskParameters =
  rp_signal :: signalKind
  side :: "positionSide option"
  entry :: real
  stopLoss :: "real option"
  takeProfit :: "real option"
  quantity :: real
  positionSizeUSDT :: real
  riskRewardRatio :: number
  riskAmount :: real
  potentialProfit :: real
  stopLossPercent :: "real option"
  takeProfitPercent :: "real option"

text \<open>
  The code throws plain \<open>Error\<close> objects that differ by message. \<open>InsufficientDataError\<close>
  stands for the two messages about missing candle data, \<open>InvalidEntryError\<close> for
  "Invalid entry price", and \<open>TypeError\<close> for a method call on \<open>undefined\<close>.
\<close>

datatype error = InsufficientDataError | InvalidEntryError | TypeError

section \<open>Indicators\<close>

text \<open>
  The strategy imports \<open>EMA\<close> and \<open>RSI\<close> from the package
  \<open>technicalindicators\<close>, which is not among the sources. Both are modelled from the
  specification's description of them.
\<close>

text \<open>
  Modelled from the spec: the recursion of \<open>EMA.calculate\<close>, missing from the sources.
  Each value after the seed is \<open>previous * (1 - k) + value * k\<close>.
\<close>

fun ema_run :: "real \<Rightarrow> real \<Rightarrow> real list \<Rightarrow> real list" where
  "ema_run k prev [] = []"
| "ema_run k prev (x # xs) = (prev * (1 - k) + x * k) # ema_run k (prev * (1 - k) + x * k) xs"

text \<open>
  Modelled from the spec: \<open>EMA.calculate({period, values})\<close>, missing from the sources.
  The seed is the arithmetic mean of the first \<open>period\<close> values and the smoothing
  factor is \<open>k = 2 / (period + 1)\<close>; the series has one value for the seed and one for
  each later input, and is empty when there are fewer inputs than the period.
\<close>

definition EMA_calculate :: "nat \<Rightarrow> real list \<Rightarrow> real list" where
  "EMA_calculate period vals =
     (if period = 0 \<or> length vals < period then []
      else
        let seed = sum_list (take period vals) / real period;
            k = 2 / (real period + 1)
        in seed # ema_run k seed (drop period vals))"

text \<open>
  Modelled from the spec: the gains and losses that \<open>RSI.calculate\<close>, missing from the
  sources, averages. A change between consecutive closes is a gain when positive and a
  loss when negative.
\<close>

fun changes :: "real list \<Rightarrow> real list" where
  "changes (x # y # xs) = (y - x) # changes (y # xs)"
| "changes _ = []"

definition gain :: "real \<Rightarrow> real" where
  "gain d = max d 0"

definition loss :: "real \<Rightarrow> real" where
  "loss d = max (- d) 0"

text \<open>
  Modelled from the spec: the index that \<open>RSI.calculate\<close>, missing from the sources,
  derives from the two averages: \<open>100 - 100 / (1 + avgGain / avgLoss)\<close>, and 100 when
  the average loss is zero.
\<close>

definition rsi_value :: "real \<Rightarrow> real \<Rightarrow> real" where
  "rsi_value avgGain avgLoss =
     (if avgLoss = 0 then 100 else 100 - 100 / (1 + avgGain / avgLoss))"

text \<open>
  Modelled from the spec: the Wilder smoothing of \<open>RSI.calculate\<close>, missing from the
  sources. Each later average is \<open>(previous * (period - 1) + current) / period\<close>.
\<close>

fun wilder_run :: "nat \<Rightarrow> real \<Rightarrow> real \<Rightarrow> real list \<Rightarrow> real list" where
  "wilder_run period avgGain avgLoss [] = []"
| "wilder_run period avgGain avgLoss (d # ds) =
     (let g = (avgGain * (real period - 1) + gain d) / real period;
          l = (avgLoss * (real period - 1) + loss d) / real period
      in rsi_value g l # wilder_run period g l ds)"

text \<open>
  Modelled from the spec: \<open>RSI.calculate({period, values})\<close>, missing from the sources.
  The first averages are the means of the first \<open>period\<close> gains and losses; the series
  has one value for them and one for each later change, and is empty when there are
  fewer changes than the period.
\<close>

definition RSI_calculate :: "nat \<Rightarrow> real list \<Rightarrow> real list" where
  "RSI_calculate period vals =
     (let ds = changes vals in
      if period = 0 \<or> length ds < period then []
      else
        let avgGain = sum_list (map gain (take period ds)) / real period;
            avgLoss = sum_list (map loss (take period ds)) / real period
        in rsi_value avgGain avgLoss # wilder_run period avgGain avgLoss (drop period ds))"

section \<open>Strategy\<close>

text \<open>
  \<open>xs[xs.length - n]\<close>: the \<open>n\<close>-th element from the end, \<open>undefined\<close> (here
  \<open>None\<close>) when the index falls outside the array.
\<close>

definition at_end :: "nat \<Rightarrow> 'a list \<Rightarrow> 'a option" where
  "at_end n xs = (if 0 < n \<and> n \<le> length xs then Some (xs ! (length xs - n)) else None)"

text \<open>\<open>a <= b\<close> and \<open>a >= b\<close> where either side may be \<open>undefined\<close>: then false.\<close>

definition js_le :: "real option \<Rightarrow> real option \<Rightarrow> bool" where
  "js_le a b = (case (a, b) of (Some x, Some y) \<Rightarrow> x \<le> y | _ \<Rightarrow> False)"

definition js_ge :: "real option \<Rightarrow> real option \<Rightarrow> bool" where
  "js_ge a b = (case (a, b) of (Some x, Some y) \<Rightarrow> y \<le> x | _ \<Rightarrow> False)"

text \<open>
  \<open>calculateConfidence(ema9, ema21, rsi, signalType, crossover)\<close>. The separation is a
  quotient by \<open>ema21\<close>, so it is a \<open>number\<close>; a signal type other than BUY and SELL
  leaves the base confidence.
\<close>

definition calculateConfidence ::
  "real \<Rightarrow> real \<Rightarrow> real \<Rightarrow> signalKind \<Rightarrow> bool \<Rightarrow> number" where
  "calculateConfidence fast slow r signalType cross =
     (let base = 50;
          total =
            (case signalType of
               BUY \<Rightarrow>
                 (let emaSeparation = js_scale (js_div (fast - slow) slow) 100;
                      c1 = js_plus (Math_min2 (js_scale emaSeparation 10) 20) base;
                      c2 = (if 55 \<le> r \<and> r \<le> 65 then js_plus c1 15 else js_plus c1 5)
                  in if cross then js_plus c2 15 else c2)
             | SELL \<Rightarrow>
                 (let emaSeparation = js_scale (js_div (slow - fast) slow) 100;
                      c1 = js_plus (Math_min2 (js_scale emaSeparation 10) 20) base;
                      c2 = (if 35 \<le> r \<and> r \<le> 45 then js_plus c1 15 else js_plus c1 5)
                  in if cross then js_plus c2 15 else c2)
             | HOLD \<Rightarrow> Num base)
      in Math_min2 (Math_roundN total) 100)"

text \<open>
  \<open>analyzeMarket(candles)\<close>. A \<open>null\<close> candle array is \<open>None\<close>. The current value of
  a series is its last element and the previous value the one before; reading the
  current value of an empty series gives \<open>undefined\<close>, on which \<open>toFixed\<close> throws a
  \<open>TypeError\<close>.
\<close>

definition analyzeMarket :: "candle list option \<Rightarrow> error + marketSignal" where
  "analyzeMarket candleso =
     (case candleso of
        None \<Rightarrow> Inl InsufficientDataError
      | Some candles \<Rightarrow>
          if length candles < 21 then Inl InsufficientDataError
          else
            let closePrices = map close candles;
                ema9Values = EMA_calculate 9 closePrices;
                ema21Values = EMA_calculate 21 closePrices;
                rsiValues = RSI_calculate 14 closePrices;
                previousEMA9 = at_end 2 ema9Values;
                previousEMA21 = at_end 2 ema21Values
            in
              (case (at_end 1 ema9Values, at_end 1 ema21Values, at_end 1 rsiValues) of
                 (Some currentEMA9, Some currentEMA21, Some currentRSI) \<Rightarrow>
                   let trend =
                         (if currentEMA9 > currentEMA21 then BULLISH
                          else if currentEMA9 < currentEMA21 then BEARISH
                          else NEUTRAL);
                       bullishCrossover =
                         (js_le previousEMA9 previousEMA21 \<and> currentEMA9 > currentEMA21);
                       bearishCrossover =
                         (js_ge previousEMA9 previousEMA21 \<and> currentEMA9 < currentEMA21);
                       decision =
                         (if currentEMA9 > currentEMA21 \<and> currentRSI > 50 \<and> currentRSI < 70
                          then (BUY, calculateConfidence currentEMA9 currentEMA21 currentRSI
                                       BUY bullishCrossover)
                          else if currentEMA9 < currentEMA21 \<and> currentRSI < 50
                                  \<and> currentRSI > 30
                          then (SELL, calculateConfidence currentEMA9 currentEMA21 currentRSI
                                        SELL bearishCrossover)
                          else (HOLD, Num 0));
                       latestCandle = last candles
                   in
                     Inr \<lparr>signal = fst decision, confidence = snd decision,
                          indicators =
                            \<lparr>ema9 = toFixed 6 currentEMA9, ema21 = toFixed 6 currentEMA21,
                             rsi = toFixed 2 currentRSI\<rparr>,
                          trend = trend,
                          crossover =
                            \<lparr>bullish = bullishCrossover, bearish = bearishCrossover\<rparr>,
                          currentPrice = close latestCandle\<rparr>
               | _ \<Rightarrow> Inl TypeError))"

section \<open>Risk management\<close>

text \<open>\<open>entryPrice || signal.currentPrice\<close>: \<open>null\<close> and \<open>0\<close> are falsy.\<close>

definition resolveEntry :: "real option \<Rightarrow> marketSignal \<Rightarrow> real" where
  "resolveEntry entryPrice sg =
     (case entryPrice of
        None \<Rightarrow> currentPrice sg
      | Some e \<Rightarrow> if e \<noteq> 0 then e else currentPrice sg)"

definition bufferPercent :: real where
  "bufferPercent = 0.005"

text \<open>The stop-loss of a long position: the lowest of the last five lows, less the buffer.\<close>

definition longStopLoss :: "candle list \<Rightarrow> real" where
  "longStopLoss candles =
     (let last5Candles = slice_last 5 candles;
          lows = map low last5Candles;
          minLow = Math_min lows
      in minLow * (1 - bufferPercent))"

text \<open>The stop-loss of a short position: the highest of the last five highs, plus the buffer.\<close>

definition shortStopLoss :: "candle list \<Rightarrow> real" where
  "shortStopLoss candles =
     (let last5Candles = slice_last 5 candles;
          highs = map high last5Candles;
          maxHigh = Math_max highs
      in maxHigh * (1 + bufferPercent))"

text \<open>
  The branch on the signal: side, stop-loss and take-profit of a trade, or nothing for
  HOLD (any signal that is neither BUY nor SELL).
\<close>

definition tradeLevels ::
  "signalKind \<Rightarrow> candle list \<Rightarrow> real \<Rightarrow> (positionSide \<times> real \<times> real) option" where
  "tradeLevels k candles e =
     (case k of
        BUY \<Rightarrow>
          (let stopLoss = longStopLoss candles;
               riskDistance = e - stopLoss;
               takeProfit = e + riskDistance * 2
           in Some (LONG, stopLoss, takeProfit))
      | SELL \<Rightarrow>
          (let stopLoss = shortStopLoss candles;
               riskDistance = stopLoss - e;
               takeProfit = e - riskDistance * 2
           in Some (SHORT, stopLoss, takeProfit))
      | HOLD \<Rightarrow> None)"

text \<open>
  \<open>calculateDynamicRisk(signal, candles, entryPrice = null, positionSizeUSDT = 100)\<close>.
  A \<open>null\<close> signal or candle array is \<open>None\<close>; an omitted position size is \<open>None\<close> and
  takes the default 100.
\<close>

definition calculateDynamicRisk ::
  "marketSignal option \<Rightarrow> candle list option \<Rightarrow> real option \<Rightarrow> real option
     \<Rightarrow> error + riskParameters" where
  "calculateDynamicRisk sgo candleso entryPrice positionSize =
     (case (sgo, candleso) of
        (Some sg, Some candles) \<Rightarrow>
          if length candles < 5 then Inl InsufficientDataError
          else
            let positionSizeUSDT = withDefault 100 positionSize;
                entry = resolveEntry entryPrice sg
            in
              if entry = 0 \<or> entry \<le> 0 then Inl InvalidEntryError
              else
                (case tradeLevels (signal sg) candles entry of
                   None \<Rightarrow>
                     Inr \<lparr>rp_signal = HOLD, side = None, entry = entry,
                          stopLoss = None, takeProfit = None, quantity = 0,
                          positionSizeUSDT = 0, riskRewardRatio = Num 0,
                          riskAmount = 0, potentialProfit = 0,
                          stopLossPercent = None, takeProfitPercent = None\<rparr>
                 | Some levels \<Rightarrow>
                     let side = fst levels;
                         stopLoss = fst (snd levels);
                         takeProfit = snd (snd levels);
                         quantity = positionSizeUSDT / entry;
                         riskPerUnit = \<bar>entry - stopLoss\<bar>;
                         profitPerUnit = \<bar>takeProfit - entry\<bar>;
                         riskAmount = riskPerUnit * quantity;
                         potentialProfit = profitPerUnit * quantity;
                         riskRewardRatio = js_div profitPerUnit riskPerUnit
                     in
                       Inr \<lparr>rp_signal = signal sg, side = Some side,
                            entry = toFixed 6 entry,
                            stopLoss = Some (toFixed 6 stopLoss),
                            takeProfit = Some (toFixed 6 takeProfit),
                            quantity = toFixed 4 quantity,
                            positionSizeUSDT = positionSizeUSDT,
                            riskRewardRatio = toFixedN 2 riskRewardRatio,
                            riskAmount = toFixed 2 riskAmount,
                            potentialProfit = toFixed 2 potentialProfit,
                            stopLossPercent =
                              Some (toFixed 2 (\<bar>entry - stopLoss\<bar> / entry * 100)),
                            takeProfitPercent =
                              Some (toFixed 2 (\<bar>takeProfit - entry\<bar> / entry * 100))\<rparr>)
      | _ \<Rightarrow> Inl InsufficientDataError)"

section \<open>Risk validation\<close>

text \<open>
  The \<open>limits\<close> argument: an object whose three properties may each be absent, in which
  case the destructuring default applies. The default argument \<open>{}\<close> is \<open>noLimits\<close>.
\<close>

record riskLimits =
  maxRiskPercent :: "real option"
  minRRRatio :: "real option"
  maxStopLossPercent :: "real option"

definition noLimits :: riskLimits where
  "noLimits = \<lparr>maxRiskPercent = None, minRRRatio = None, maxStopLossPercent = None\<rparr>"

text \<open>
  The three messages the validator pushes, each with the numbers it prints, and the
  informational entry of a valid result.
\<close>

datatype reason =
    RiskRewardBelowMinimum number real
  | StopLossExceedsMaximum real real
  | RiskExceedsMaximum real real
  | AllWithinLimits

record validationResult =
  valid :: bool
  reasons :: "reason list"
  riskPercent :: real

text \<open>
  \<open>validateRiskParameters(riskParams, limits = {})\<close>. The pair \<open>(valid, reasons)\<close> is
  threaded through the three checks as the code mutates the two variables. The comparison
  of an absent \<open>stopLossPercent\<close> (the HOLD result has none) with the limit is false.
\<close>

definition validateRiskParameters :: "riskParameters \<Rightarrow> riskLimits \<Rightarrow> validationResult" where
  "validateRiskParameters riskParams limits =
     (let maxRisk = withDefault 2 (maxRiskPercent limits);
          minRR = withDefault 1.5 (minRRRatio limits);
          maxStop = withDefault 5 (maxStopLossPercent limits);
          st0 = (True, []);
          st1 = (if js_less (riskRewardRatio riskParams) (Num minRR)
                 then (False, snd st0 @ [RiskRewardBelowMinimum (riskRewardRatio riskParams) minRR])
                 else st0);
          st2 = (case stopLossPercent riskParams of
                   None \<Rightarrow> st1
                 | Some p \<Rightarrow>
                     if p > maxStop
                     then (False, snd st1 @ [StopLossExceedsMaximum p maxStop])
                     else st1);
          accountSize = 5000;
          riskPct = (riskAmount riskParams / accountSize) * 100;
          st3 = (if riskPct > maxRisk
                 then (False, snd st2 @ [RiskExceedsMaximum (toFixed 2 riskPct) maxRisk])
                 else st2)
      in \<lparr>valid = fst st3,
          reasons = (if length (snd st3) > 0 then snd st3 else [AllWithinLimits]),
          riskPercent = toFixed 2 riskPct\<rparr>)"

section \<open>Rate limiter\<close>

text \<open>
  The state of a \<open>RateLimiter\<close>. \<open>Date.now()\<close> is an explicit argument \<open>now\<close>, in
  milliseconds, of every operation that reads the clock. The fields \<open>queue\<close> and
  \<open>processing\<close> are never read and are left out.
\<close>

record rateLimiter =
  maxTokens :: real
  tokens :: real
  refillRate :: real
  lastRefill :: int

definition newRateLimiter :: "int \<Rightarrow> real \<Rightarrow> real \<Rightarrow> rateLimiter" where
  "newRateLimiter now maxT rate =
     \<lparr>maxTokens = maxT, tokens = maxT, refillRate = rate, lastRefill = now\<rparr>"

definition refillTokens :: "int \<Rightarrow> rateLimiter \<Rightarrow> rateLimiter" where
  "refillTokens now s =
     (let elapsed = real_of_int (now - lastRefill s) / 1000;
          tokensToAdd = elapsed * refillRate s
      in s\<lparr>tokens := min (maxTokens s) (tokens s + tokensToAdd), lastRefill := now\<rparr>)"

definition tryConsume :: "int \<Rightarrow> real \<Rightarrow> rateLimiter \<Rightarrow> bool \<times> rateLimiter" where
  "tryConsume now cost s =
     (let s1 = refillTokens now s
      in if tokens s1 \<ge> cost then (True, s1\<lparr>tokens := tokens s1 - cost\<rparr>)
         else (False, s1))"

definition getAvailableTokens :: "int \<Rightarrow> rateLimiter \<Rightarrow> int \<times> rateLimiter" where
  "getAvailableTokens now s = (let s1 = refillTokens now s in (\<lfloor>tokens s1\<rfloor>, s1))"

definition reset :: "int \<Rightarrow> rateLimiter \<Rightarrow> rateLimiter" where
  "reset now s = s\<lparr>tokens := maxTokens s, lastRefill := now\<rparr>"




section \<open>Test fixtures and reference definitions\<close>

text \<open>
  The fixtures of the risk tests: ten candles rising by 0.005 each, and a BUY signal at
  the price 0.545.
\<close>

definition mockCandle :: "nat \<Rightarrow> candle" where
  "mockCandle i =
     \<lparr>opn = 0.50 + real i * 0.005, high = 0.51 + real i * 0.005,
      low = 0.49 + real i * 0.005, close = 0.50 + real i * 0.005, volume = 1000000\<rparr>"

definition mockCandles :: "candle list" where
  "mockCandles = map mockCandle [0, 1, 2, 3, 4, 5, 6, 7, 8, 9]"

definition mockSignal :: marketSignal where
  "mockSignal =
     \<lparr>signal = BUY, confidence = Num 75,
      indicators = \<lparr>ema9 = 0.55, ema21 = 0.54, rsi = 60\<rparr>,
      trend = BULLISH, crossover = \<lparr>bullish = False, bearish = False\<rparr>,
      currentPrice = 0.545\<rparr>"

text \<open>
  The entry rule in the words of the specification: the override when it is provided and
  greater than 0, otherwise the current price of the signal.
\<close>

definition resolveEntry_spec :: "real option \<Rightarrow> marketSignal \<Rightarrow> real" where
  "resolveEntry_spec entryOverride sg =
     (case entryOverride of
        None \<Rightarrow> currentPrice sg
      | Some e \<Rightarrow> if 0 < e then e else currentPrice sg)"



text \<open>What \<open>calculateDynamicRisk\<close> returns on the fixtures, for BUY and for SELL.\<close>

definition mockRisk :: riskParameters where
  "mockRisk =
     \<lparr>rp_signal = BUY, side = Some LONG, entry = 0.545,
      stopLoss = Some 0.512425, takeProfit = Some 0.61015,
      quantity = 183.4862, positionSizeUSDT = 100,
      riskRewardRatio = Num 2, riskAmount = 5.98,
      potentialProfit = 11.95, stopLossPercent = Some 5.98,
      takeProfitPercent = Some 11.95\<rparr>"

definition mockRiskShort :: riskParameters where
  "mockRiskShort =
     \<lparr>rp_signal = SELL, side = Some SHORT, entry = 0.545,
      stopLoss = Some 0.557775, takeProfit = Some 0.51945,
      quantity = 183.4862, positionSizeUSDT = 100,
      riskRewardRatio = Num 2, riskAmount = 2.34,
      potentialProfit = 4.69, stopLossPercent = Some 2.34,
      takeProfitPercent = Some 4.69\<rparr>"

text \<open>
  A rising zigzag of 22 closes (up 3, down 2), on which the strategy signals BUY, and the
  signal it returns.
\<close>

definition zigCandle :: "real \<Rightarrow> candle" where
  "zigCandle c = \<lparr>opn = c, high = c + 1, low = c - 1, close = c, volume = 1000\<rparr>"

definition zigCloses :: "real list" where
  "zigCloses = [1000, 1003, 1001, 1004, 1002, 1005, 1003, 1006, 1004, 1007, 1005,
                1008, 1006, 1009, 1007, 1010, 1008, 1011, 1009, 1012, 1010, 1013]"

definition zigCandles :: "candle list" where
  "zigCandles = map zigCandle zigCloses"

text \<open>
  The confidence in the words of the specification: base 50, plus the trend-strength
  bonus \<open>min(|percentage separation| * 10, 20)\<close>, plus 15 in the sweet spot of the
  RSI and 5 outside, plus 15 for the matching crossover; \<open>confidence_spec\<close> caps the
  sum at 100.
\<close>

definition confidenceScore :: "real \<Rightarrow> real \<Rightarrow> bool \<Rightarrow> bool \<Rightarrow> real" where
  "confidenceScore fast slow sweet cross =
     50 + min (\<bar>(fast - slow) / slow * 100\<bar> * 10) 20
        + (if sweet then 15 else 5) + (if cross then 15 else 0)"

definition sweetSpot :: "signalKind \<Rightarrow> real \<Rightarrow> bool" where
  "sweetSpot k r = (case k of BUY \<Rightarrow> 55 \<le> r \<and> r \<le> 65 | SELL \<Rightarrow> 35 \<le> r \<and> r \<le> 45 | HOLD \<Rightarrow> False)"

definition confidence_spec :: "real \<Rightarrow> real \<Rightarrow> real \<Rightarrow> signalKind \<Rightarrow> bool \<Rightarrow> real" where
  "confidence_spec fast slow r k cross = min (confidenceScore fast slow (sweetSpot k r) cross) 100"

definition zigSignal :: marketSignal where
  "zigSignal =
     \<lparr>signal = BUY, confidence = Num 68,
      indicators = \<lparr>ema9 = 1009.888889, ema21 = 1006.809524, rsi = 62.8\<rparr>,
      trend = BULLISH, crossover = \<lparr>bullish = False, bearish = False\<rparr>,
      currentPrice = 1013\<rparr>"

text \<open>
  Twenty-one candles closing at the same price: at 0.5, and at 0.1234567, which has more
  than six decimals.
\<close>

definition steadyCandles :: "candle list" where
  "steadyCandles = replicate 21 (zigCandle 0.5)"


definition steadySignal :: marketSignal where
  "steadySignal =
     \<lparr>signal = HOLD, confidence = Num 0,
      indicators = \<lparr>ema9 = 0.5, ema21 = 0.5, rsi = 100\<rparr>,
      trend = NEUTRAL, crossover = \<lparr>bullish = False, bearish = False\<rparr>,
      currentPrice = 0.5\<rparr>"

text \<open>
  The three checks of the validator in the words of the specification, against the
  limits with their defaults and the reference account of 5000, and the reasons of the
  violated ones in the order of the checks.
\<close>

definition ratioTooLow :: "riskParameters \<Rightarrow> riskLimits \<Rightarrow> bool" where
  "ratioTooLow rp lims = js_less (riskRewardRatio rp) (Num (withDefault 1.5 (minRRRatio lims)))"

definition stopTooWide :: "riskParameters \<Rightarrow> riskLimits \<Rightarrow> bool" where
  "stopTooWide rp lims =
     (case stopLossPercent rp of
        None \<Rightarrow> False
      | Some p \<Rightarrow> p > withDefault 5 (maxStopLossPercent lims))"

definition riskTooHigh :: "riskParameters \<Rightarrow> riskLimits \<Rightarrow> bool" where
  "riskTooHigh rp lims = (riskAmount rp / 5000 * 100 > withDefault 2 (maxRiskPercent lims))"

definition violations :: "riskParameters \<Rightarrow> riskLimits \<Rightarrow> reason list" where
  "violations rp lims =
     (if ratioTooLow rp lims
      then [RiskRewardBelowMinimum (riskRewardRatio rp) (withDefault 1.5 (minRRRatio lims))]
      else [])
     @ (case stopLossPercent rp of
          None \<Rightarrow> []
        | Some p \<Rightarrow>
            if stopTooWide rp lims
            then [StopLossExceedsMaximum p (withDefault 5 (maxStopLossPercent lims))]
            else [])
     @ (if riskTooHigh rp lims
        then [RiskExceedsMaximum (toFixed 2 (riskAmount rp / 5000 * 100))
                (withDefault 2 (maxRiskPercent lims))]
        else [])"

text \<open>
  The risk parameters of the validator tests (ratio 2, stop-loss 3 percent, risk 50), and
  a variant that violates all three limits.
\<close>

definition mockRiskParams :: riskParameters where
  "mockRiskParams =
     \<lparr>rp_signal = BUY, side = Some LONG, entry = 0.545,
      stopLoss = Some 0.52, takeProfit = Some 0.59,
      quantity = 183.4862, positionSizeUSDT = 100,
      riskRewardRatio = Num 2, riskAmount = 50,
      potentialProfit = 100, stopLossPercent = Some 3,
      takeProfitPercent = Some 6\<rparr>"

definition badRiskParams :: riskParameters where
  "badRiskParams =
     mockRiskParams\<lparr>riskRewardRatio := Num 1, stopLossPercent := Some 10, riskAmount := 150\<rparr>"

text \<open>The invariant of the data model: the tokens lie between 0 and the capacity.\<close>

definition bucketInvariant :: "rateLimiter \<Rightarrow> bool" where
  "bucketInvariant s = (0 \<le> tokens s \<and> tokens s \<le> maxTokens s)"

text \<open>The token count after a refill at time \<open>now\<close>.\<close>

definition refilled :: "int \<Rightarrow> rateLimiter \<Rightarrow> real" where
  "refilled now s =
     min (maxTokens s) (tokens s + real_of_int (now - lastRefill s) / 1000 * refillRate s)"

text \<open>
  A run of the limiter: the calls made on it with the clock reading of each, executed in
  order. A run is well timed when the clock never goes back and no cost is negative.
\<close>

datatype limiterOp = TryConsume int real | RefillTokens int | Reset int

fun applyOp :: "limiterOp \<Rightarrow> rateLimiter \<Rightarrow> rateLimiter" where
  "applyOp (TryConsume now cost) s = snd (tryConsume now cost s)"
| "applyOp (RefillTokens now) s = refillTokens now s"
| "applyOp (Reset now) s = reset now s"

fun opTime :: "limiterOp \<Rightarrow> int" where
  "opTime (TryConsume now cost) = now"
| "opTime (RefillTokens now) = now"
| "opTime (Reset now) = now"

fun opCost :: "limiterOp \<Rightarrow> real" where
  "opCost (TryConsume now cost) = cost"
| "opCost _ = 0"

fun runOps :: "limiterOp list \<Rightarrow> rateLimiter \<Rightarrow> rateLimiter" where
  "runOps [] s = s"
| "runOps (x # xs) s = runOps xs (applyOp x s)"

fun wellTimed :: "int \<Rightarrow> limiterOp list \<Rightarrow> bool" where
  "wellTimed t [] = True"
| "wellTimed t (x # xs) = (t \<le> opTime x \<and> 0 \<le> opCost x \<and> wellTimed (opTime x) xs)"

text \<open>The limiter of the tests, \<open>RateLimiter(5, 5)\<close>, after all five tokens are consumed.\<close>

definition drained :: rateLimiter where
  "drained = \<lparr>maxTokens = 5, tokens = 0, refillRate = 5, lastRefill = 0\<rparr>"

section \<open>Properties of the indicators and the strategy\<close>


text \<open>The lengths of the indicator series.\<close>

lemma length_ema_run: "length (ema_run k p xs) = length xs"
  by (induction xs arbitrary: p) simp_all

lemma length_EMA_calculate:
  "0 < p \<Longrightarrow> p \<le> length vs \<Longrightarrow> length (EMA_calculate p vs) = length vs - p + 1"
  by (simp add: EMA_calculate_def Let_def length_ema_run)

lemma length_changes: "length (changes xs) = length xs - 1"
  by (induction xs rule: changes.induct) simp_all

lemma length_wilder_run: "length (wilder_run p g l ds) = length ds"
  by (induction ds arbitrary: g l) (simp_all add: Let_def)

lemma length_RSI_calculate:
  "0 < p \<Longrightarrow> p < length vs \<Longrightarrow> length (RSI_calculate p vs) = length vs - p"
  by (auto simp add: RSI_calculate_def Let_def length_wilder_run length_changes)

lemma at_end_1: "xs \<noteq> [] \<Longrightarrow> at_end 1 xs = Some (last xs)"
  by (cases xs rule: rev_cases) (simp_all add: at_end_def nth_append)

text \<open>An average of positive closes is positive.\<close>

lemma ema_run_pos:
  "0 < k \<Longrightarrow> k \<le> 1 \<Longrightarrow> 0 < p \<Longrightarrow> \<forall>x \<in> set xs. 0 < x \<Longrightarrow> \<forall>v \<in> set (ema_run k p xs). 0 < v"
proof (induction xs arbitrary: p)
  case Nil
  then show ?case by simp
next
  case (Cons x xs)
  have x: "0 < x" using Cons.prems by simp
  have "0 \<le> p * (1 - k)" using Cons.prems by simp
  moreover have "0 < x * k" using x Cons.prems by simp
  ultimately have v: "0 < p * (1 - k) + x * k" by linarith
  from Cons.IH[OF Cons.prems(1,2) v] Cons.prems(4) v show ?case by simp
qed

lemma sum_list_pos_real:
  "xs \<noteq> [] \<Longrightarrow> \<forall>x \<in> set xs. (0::real) < x \<Longrightarrow> 0 < sum_list xs"
  by (induction xs) (auto simp add: add_pos_nonneg sum_list_nonneg less_imp_le)

lemma EMA_calculate_pos:
  assumes "\<forall>x \<in> set vs. 0 < x"
  shows "\<forall>v \<in> set (EMA_calculate p vs). 0 < v"
proof (cases "p = 0 \<or> length vs < p")
  case True
  then show ?thesis by (simp add: EMA_calculate_def)
next
  case False
  then have p: "0 < p" "p \<le> length vs" by simp_all
  have tk: "take p vs \<noteq> []" using p by auto
  have "\<forall>x \<in> set (take p vs). 0 < x" using assms by (meson in_set_takeD)
  then have "0 < sum_list (take p vs)" using tk by (rule sum_list_pos_real[rotated])
  then have seed: "0 < sum_list (take p vs) / real p" using p by simp
  have k: "0 < 2 / (real p + 1)" "2 / (real p + 1) \<le> 1" using p by simp_all
  have "\<forall>x \<in> set (drop p vs). 0 < x" using assms by (meson in_set_dropD)
  from ema_run_pos[OF k seed this] seed False show ?thesis
    by (simp add: EMA_calculate_def Let_def)
qed

lemma analyzeMarket_insufficient:
  "analyzeMarket (Some cs) = Inl InsufficientDataError \<longleftrightarrow> length cs < 21"
  by (simp add: analyzeMarket_def Let_def split: option.splits)

text \<open>With 21 candles or more every series has a current value, so a signal is returned.\<close>

lemma analyzeMarket_accepts:
  assumes "21 \<le> length cs"
  shows "\<exists>sg. analyzeMarket (Some cs) = Inr sg"
proof -
  have "EMA_calculate 9 (map close cs) \<noteq> []" "EMA_calculate 21 (map close cs) \<noteq> []"
    using assms by (simp_all add: EMA_calculate_def Let_def)
  moreover have "length (RSI_calculate 14 (map close cs)) = length (map close cs) - 14"
    using assms by (intro length_RSI_calculate) simp_all
  then have "RSI_calculate 14 (map close cs) \<noteq> []" using assms by auto
  ultimately obtain f s r where
    "at_end 1 (EMA_calculate 9 (map close cs)) = Some f"
    "at_end 1 (EMA_calculate 21 (map close cs)) = Some s"
    "at_end 1 (RSI_calculate 14 (map close cs)) = Some r"
    using at_end_1 by blast
  then show ?thesis using assms by (simp add: analyzeMarket_def Let_def)
qed

text \<open>What a returned signal says about the current indicator values.\<close>

lemma analyzeMarket_Inr:
  assumes "analyzeMarket (Some cs) = Inr sg"
  obtains f s r where
    "21 \<le> length cs"
    "at_end 1 (EMA_calculate 9 (map close cs)) = Some f"
    "at_end 1 (EMA_calculate 21 (map close cs)) = Some s"
    "at_end 1 (RSI_calculate 14 (map close cs)) = Some r"
    "signal sg = (if f > s \<and> 50 < r \<and> r < 70 then BUY
                  else if f < s \<and> 30 < r \<and> r < 50 then SELL else HOLD)"
    "bullish (crossover sg)
       = (js_le (at_end 2 (EMA_calculate 9 (map close cs)))
                (at_end 2 (EMA_calculate 21 (map close cs))) \<and> f > s)"
    "bearish (crossover sg)
       = (js_ge (at_end 2 (EMA_calculate 9 (map close cs)))
                (at_end 2 (EMA_calculate 21 (map close cs))) \<and> f < s)"
    "confidence sg = (if f > s \<and> 50 < r \<and> r < 70
                        then calculateConfidence f s r BUY (bullish (crossover sg))
                      else if f < s \<and> 30 < r \<and> r < 50
                        then calculateConfidence f s r SELL (bearish (crossover sg))
                      else Num 0)"
    "trend sg = (if f > s then BULLISH else if f < s then BEARISH else NEUTRAL)"
    "indicators sg = \<lparr>ema9 = toFixed 6 f, ema21 = toFixed 6 s, rsi = toFixed 2 r\<rparr>"
    "currentPrice sg = close (last cs)"
  using assms
  by (auto simp add: analyzeMarket_def Let_def split: if_splits option.splits)

text \<open>
  Claim C5. For every candle sequence on which \<open>analyzeMarket\<close> returns a signal, the
  kind of the signal is given by the first matching rule on the current values of the
  fast EMA, the slow EMA and the RSI: BUY when fast \<open>>\<close> slow and 50 \<open><\<close> RSI \<open><\<close> 70;
  otherwise SELL when fast \<open><\<close> slow and 30 \<open><\<close> RSI \<open><\<close> 50; otherwise HOLD, and
  HOLD has confidence 0.
\<close>

theorem analyzeMarket_signal_rule:
  assumes "analyzeMarket (Some cs) = Inr sg"
  shows "\<exists>f s r. at_end 1 (EMA_calculate 9 (map close cs)) = Some f
           \<and> at_end 1 (EMA_calculate 21 (map close cs)) = Some s
           \<and> at_end 1 (RSI_calculate 14 (map close cs)) = Some r
           \<and> signal sg = (if f > s \<and> 50 < r \<and> r < 70 then BUY
                           else if f < s \<and> 30 < r \<and> r < 50 then SELL
                           else HOLD)
           \<and> (signal sg = HOLD \<longrightarrow> confidence sg = Num 0)"
proof -
  from assms obtain f s r where
    a: "at_end 1 (EMA_calculate 9 (map close cs)) = Some f"
       "at_end 1 (EMA_calculate 21 (map close cs)) = Some s"
       "at_end 1 (RSI_calculate 14 (map close cs)) = Some r"
    and k: "signal sg = (if f > s \<and> 50 < r \<and> r < 70 then BUY
                  else if f < s \<and> 30 < r \<and> r < 50 then SELL else HOLD)"
    and c: "confidence sg = (if f > s \<and> 50 < r \<and> r < 70
                        then calculateConfidence f s r BUY (bullish (crossover sg))
                      else if f < s \<and> 30 < r \<and> r < 50
                        then calculateConfidence f s r SELL (bearish (crossover sg))
                      else Num 0)"
    by (rule analyzeMarket_Inr)
  have "confidence sg = Num 0" if "signal sg = HOLD"
  proof -
    from that k have "\<not> (f > s \<and> 50 < r \<and> r < 70)" "\<not> (f < s \<and> 30 < r \<and> r < 50)"
      by (auto split: if_splits)
    with c show ?thesis by simp
  qed
  then have "signal sg = HOLD \<longrightarrow> confidence sg = Num 0" by blast
  with a k show ?thesis by blast
qed

lemma calculateConfidence_BUY:
  assumes "0 < s" and "s < f"
  shows "calculateConfidence f s r BUY x
           = Num (min (Math_round (confidenceScore f s (55 \<le> r \<and> r \<le> 65) x)) 100)"
proof -
  have "0 < (f - s) / s * 100" using assms by simp
  then have "\<bar>(f - s) / s * 100\<bar> = (f - s) / s * 100" by (rule abs_of_pos)
  then show ?thesis using assms
    by (simp add: calculateConfidence_def confidenceScore_def js_div_def js_scale_def
        js_plus_def Math_min2_def Math_roundN_def Let_def add.commute add.left_commute)
qed

lemma calculateConfidence_SELL:
  assumes "0 < s" and "f < s"
  shows "calculateConfidence f s r SELL x
           = Num (min (Math_round (confidenceScore f s (35 \<le> r \<and> r \<le> 45) x)) 100)"
proof -
  have "0 < (s - f) / s * 100" using assms by simp
  moreover have "(f - s) / s * 100 = - ((s - f) / s * 100)"
    using assms by (simp add: field_simps)
  ultimately have "\<bar>(f - s) / s * 100\<bar> = (s - f) / s * 100"
    by (simp only: abs_minus abs_of_pos)
  then show ?thesis using assms
    by (simp add: calculateConfidence_def confidenceScore_def js_div_def js_scale_def
        js_plus_def Math_min2_def Math_roundN_def Let_def add.commute add.left_commute)
qed

lemma confidenceScore_ge: "55 \<le> confidenceScore f s w x"
proof -
  have "0 \<le> min (\<bar>(f - s) / s * 100\<bar> * 10) 20" by simp
  then show ?thesis by (simp add: confidenceScore_def)
qed

lemma capped_round_range:
  assumes "0 \<le> v"
  shows "0 \<le> min (Math_round v) 100 \<and> min (Math_round v) 100 \<le> 100"
proof -
  from assms have "0 \<le> v + 1 / 2" by simp
  then have "0 \<le> \<lfloor>v + 1 / 2\<rfloor>" by simp
  then have "0 \<le> Math_round v" by (simp add: Math_round_def)
  then show ?thesis by simp
qed

lemma at_end_in_set: "at_end n xs = Some v \<Longrightarrow> v \<in> set xs"
  by (auto simp add: at_end_def split: if_splits)

text \<open>
  Claim C6, amended. For candles with positive closes, the confidence of a BUY or SELL
  signal is the score of the specification (base 50, trend-strength bonus, RSI bonus,
  crossover bonus) rounded to the nearest integer and then capped at 100; the confidence
  of every returned signal is a finite number in \<open>[0, 100]\<close>.
\<close>

theorem analyzeMarket_confidence:
  assumes "analyzeMarket (Some cs) = Inr sg" and "\<forall>c \<in> set cs. 0 < close c"
  shows "\<exists>f s r. at_end 1 (EMA_calculate 9 (map close cs)) = Some f
           \<and> at_end 1 (EMA_calculate 21 (map close cs)) = Some s
           \<and> at_end 1 (RSI_calculate 14 (map close cs)) = Some r
           \<and> (signal sg = BUY \<longrightarrow>
                 confidence sg
                   = Num (min (Math_round (confidenceScore f s (55 \<le> r \<and> r \<le> 65)
                                             (bullish (crossover sg)))) 100))
           \<and> (signal sg = SELL \<longrightarrow>
                 confidence sg
                   = Num (min (Math_round (confidenceScore f s (35 \<le> r \<and> r \<le> 45)
                                             (bearish (crossover sg)))) 100))
           \<and> (\<exists>c. confidence sg = Num c \<and> 0 \<le> c \<and> c \<le> 100)"
proof -
  from assms(1) obtain f s r where
    a: "at_end 1 (EMA_calculate 9 (map close cs)) = Some f"
       "at_end 1 (EMA_calculate 21 (map close cs)) = Some s"
       "at_end 1 (RSI_calculate 14 (map close cs)) = Some r"
    and k: "signal sg = (if f > s \<and> 50 < r \<and> r < 70 then BUY
                  else if f < s \<and> 30 < r \<and> r < 50 then SELL else HOLD)"
    and c: "confidence sg = (if f > s \<and> 50 < r \<and> r < 70
                        then calculateConfidence f s r BUY (bullish (crossover sg))
                      else if f < s \<and> 30 < r \<and> r < 50
                        then calculateConfidence f s r SELL (bearish (crossover sg))
                      else Num 0)"
    by (rule analyzeMarket_Inr)
  have "\<forall>x \<in> set (map close cs). 0 < x" using assms(2) by simp
  then have "\<forall>v \<in> set (EMA_calculate 21 (map close cs)). 0 < v"
    by (rule EMA_calculate_pos)
  with at_end_in_set[OF a(2)] have s: "0 < s" by blast
  let ?buy = "Num (min (Math_round (confidenceScore f s (55 \<le> r \<and> r \<le> 65)
                                             (bullish (crossover sg)))) 100)"
  let ?sell = "Num (min (Math_round (confidenceScore f s (35 \<le> r \<and> r \<le> 45)
                                             (bearish (crossover sg)))) 100)"
  have buy: "confidence sg = ?buy" if "signal sg = BUY"
  proof -
    from that k have g: "f > s \<and> 50 < r \<and> r < 70" by (simp split: if_splits)
    with c have "confidence sg = calculateConfidence f s r BUY (bullish (crossover sg))"
      by simp
    with calculateConfidence_BUY[OF s, of f] g show ?thesis by simp
  qed
  have sell: "confidence sg = ?sell" if "signal sg = SELL"
  proof -
    from that k have g: "\<not> (f > s \<and> 50 < r \<and> r < 70)" "f < s \<and> 30 < r \<and> r < 50"
      by (simp_all split: if_splits)
    with c have "confidence sg = calculateConfidence f s r SELL (bearish (crossover sg))"
      by simp
    with calculateConfidence_SELL[OF s, of f] g show ?thesis by simp
  qed
  have range: "\<exists>c. confidence sg = Num c \<and> 0 \<le> c \<and> c \<le> 100"
  proof (cases "signal sg")
    case BUY
    have "0 \<le> confidenceScore f s (55 \<le> r \<and> r \<le> 65) (bullish (crossover sg))"
      using confidenceScore_ge[of f s "55 \<le> r \<and> r \<le> 65" "bullish (crossover sg)"] by simp
    from capped_round_range[OF this] buy[OF BUY] show ?thesis by blast
  next
    case SELL
    have "0 \<le> confidenceScore f s (35 \<le> r \<and> r \<le> 45) (bearish (crossover sg))"
      using confidenceScore_ge[of f s "35 \<le> r \<and> r \<le> 45" "bearish (crossover sg)"] by simp
    from capped_round_range[OF this] sell[OF SELL] show ?thesis by blast
  next
    case HOLD
    with k have "\<not> (f > s \<and> 50 < r \<and> r < 70)" "\<not> (f < s \<and> 30 < r \<and> r < 50)"
      by (auto split: if_splits)
    with c have "confidence sg = Num 0" by simp
    then show ?thesis by simp
  qed
  from a buy sell range show ?thesis by blast
qed

lemmas indicator_eval =
  EMA_calculate_def RSI_calculate_def rsi_value_def gain_def loss_def at_end_def
  zigCandles_def zigCloses_def zigCandle_def Let_def

lemma zig_ema9: "at_end 1 (EMA_calculate 9 (map close zigCandles)) = Some (9089 / 9)"
  by (simp add: indicator_eval)

lemma zig_ema21: "at_end 1 (EMA_calculate 21 (map close zigCandles)) = Some (21143 / 21)"
  by (simp add: indicator_eval)

lemma zig_rsi:
  "at_end 1 (RSI_calculate 14 (map close zigCandles)) = Some (33492518100 / 533295743)"
  by (simp add: indicator_eval)

lemma zig_prev9: "at_end 2 (EMA_calculate 9 (map close zigCandles)) = Some (9082 / 9)"
  by (simp add: indicator_eval)

lemma zig_prev21: "at_end 2 (EMA_calculate 21 (map close zigCandles)) = Some (21130 / 21)"
  by (simp add: indicator_eval)

text \<open>The signal in terms of the current indicator values.\<close>

lemma analyzeMarket_value:
  assumes "21 \<le> length cs"
    and "at_end 1 (EMA_calculate 9 (map close cs)) = Some f"
    and "at_end 1 (EMA_calculate 21 (map close cs)) = Some s"
    and "at_end 1 (RSI_calculate 14 (map close cs)) = Some r"
    and "bull = (js_le (at_end 2 (EMA_calculate 9 (map close cs)))
                       (at_end 2 (EMA_calculate 21 (map close cs))) \<and> f > s)"
    and "bear = (js_ge (at_end 2 (EMA_calculate 9 (map close cs)))
                       (at_end 2 (EMA_calculate 21 (map close cs))) \<and> f < s)"
  shows "analyzeMarket (Some cs) =
     Inr \<lparr>signal = (if f > s \<and> 50 < r \<and> r < 70 then BUY
                    else if f < s \<and> 30 < r \<and> r < 50 then SELL else HOLD),
          confidence = (if f > s \<and> 50 < r \<and> r < 70
                          then calculateConfidence f s r BUY bull
                        else if f < s \<and> 30 < r \<and> r < 50
                          then calculateConfidence f s r SELL bear
                        else Num 0),
          indicators = \<lparr>ema9 = toFixed 6 f, ema21 = toFixed 6 s, rsi = toFixed 2 r\<rparr>,
          trend = (if f > s then BULLISH else if f < s then BEARISH else NEUTRAL),
          crossover = \<lparr>bullish = bull, bearish = bear\<rparr>,
          currentPrice = close (last cs)\<rparr>"
  using assms by (auto simp add: analyzeMarket_def Let_def)

lemma zigSignal_eval: "analyzeMarket (Some zigCandles) = Inr zigSignal"
proof -
  have len: "21 \<le> length zigCandles" by (simp add: zigCandles_def zigCloses_def)
  have lst: "close (last zigCandles) = 1013"
    by (simp add: zigCandles_def zigCloses_def zigCandle_def)
  have bull: "False = (js_le (at_end 2 (EMA_calculate 9 (map close zigCandles)))
                       (at_end 2 (EMA_calculate 21 (map close zigCandles)))
                       \<and> (9089 / 9 :: real) > 21143 / 21)"
    by (simp add: zig_prev9 zig_prev21 js_le_def)
  have bear: "False = (js_ge (at_end 2 (EMA_calculate 9 (map close zigCandles)))
                       (at_end 2 (EMA_calculate 21 (map close zigCandles)))
                       \<and> (9089 / 9 :: real) < 21143 / 21)"
    by simp
  show ?thesis
    unfolding analyzeMarket_value[OF len zig_ema9 zig_ema21 zig_rsi bull bear] lst
    by (simp add: zigSignal_def calculateConfidence_def js_div_def js_scale_def js_plus_def
        Math_min2_def Math_roundN_def Math_round_def toFixed_def)
qed

text \<open>The indicators of a constant series.\<close>

lemma ema_run_replicate:
  "ema_run k c (replicate n c) = replicate n c"
proof (induction n)
  case 0
  then show ?case by simp
next
  case (Suc n)
  have "c * (1 - k) + c * k = c" by (simp add: algebra_simps)
  with Suc show ?case by simp
qed

lemma mean_replicate: "0 < p \<Longrightarrow> sum_list (replicate p c) / real p = (c::real)"
  by (simp add: sum_list_replicate)

lemma EMA_calculate_replicate:
  assumes "0 < p" and "p \<le> n"
  shows "EMA_calculate p (replicate n c) = replicate (n - p + 1) c"
  using assms by (simp add: EMA_calculate_def Let_def mean_replicate ema_run_replicate min_def)

lemma changes_replicate: "changes (replicate n c) = replicate (n - 1) 0"
proof (induction n)
  case 0
  then show ?case by simp
next
  case (Suc n)
  then show ?case by (cases n) simp_all
qed

lemma wilder_run_zero: "wilder_run p 0 0 (replicate n 0) = replicate n 100"
  by (induction n) (simp_all add: Let_def gain_def loss_def rsi_value_def)

lemma RSI_calculate_replicate:
  assumes "0 < p" and "p < n"
  shows "RSI_calculate p (replicate n c) = replicate (n - p) 100"
proof -
  have z: "sum_list (replicate p (0::real)) / real p = 0" by (simp add: sum_list_replicate)
  have "n - p = Suc (n - Suc p)" using assms by simp
  then have "rsi_value 0 0 # wilder_run p 0 0 (replicate (n - Suc p) 0) = replicate (n - p) 100"
    by (simp add: wilder_run_zero rsi_value_def)
  then show ?thesis using assms
    by (auto simp add: RSI_calculate_def Let_def changes_replicate gain_def loss_def z min_def)
qed

lemma at_end_replicate: "0 < k \<Longrightarrow> k \<le> n \<Longrightarrow> at_end k (replicate n x) = Some x"
  by (simp add: at_end_def)

lemma map_close_constant:
  "\<forall>x \<in> set cs. close x = c \<Longrightarrow> map close cs = replicate (length cs) c"
  by (induction cs) simp_all

lemma toFixed_of_int:
  assumes "x * 10 ^ d = real_of_int n"
  shows "toFixed d x = x"
proof -
  have p: "(10::real) ^ d \<noteq> 0" by simp
  have x: "x = real_of_int n / 10 ^ d" using assms p by (simp add: field_simps)
  show ?thesis
  proof (cases "0 \<le> x")
    case True
    have "\<lfloor>x * 10 ^ d + 1 / 2\<rfloor> = n" unfolding assms by linarith
    with True x show ?thesis by (simp add: toFixed_def)
  next
    case False
    have "- x * 10 ^ d = real_of_int (- n)" using assms by simp
    then have "\<lfloor>- x * 10 ^ d + 1 / 2\<rfloor> = - n" by linarith
    with False x show ?thesis by (simp add: toFixed_def)
  qed
qed

lemma analyzeMarket_constant:
  assumes "21 \<le> length cs" and "\<forall>x \<in> set cs. close x = c"
  shows "analyzeMarket (Some cs) =
           Inr \<lparr>signal = HOLD, confidence = Num 0,
                indicators = \<lparr>ema9 = toFixed 6 c, ema21 = toFixed 6 c, rsi = 100\<rparr>,
                trend = NEUTRAL, crossover = \<lparr>bullish = False, bearish = False\<rparr>,
                currentPrice = c\<rparr>
         \<and> at_end 1 (EMA_calculate 9 (map close cs)) = Some c
         \<and> at_end 1 (EMA_calculate 21 (map close cs)) = Some c
         \<and> at_end 1 (RSI_calculate 14 (map close cs)) = Some 100
         \<and> (\<forall>n. c * 10 ^ 6 = real_of_int n \<longrightarrow> toFixed 6 c = c)"
proof -
  let ?n = "length cs"
  have m: "map close cs = replicate ?n c" using assms(2) by (rule map_close_constant)
  have "EMA_calculate 9 (map close cs) = replicate (?n - 9 + 1) c"
    unfolding m using assms(1) by (intro EMA_calculate_replicate) simp_all
  moreover have "at_end 1 (replicate (?n - 9 + 1) c) = Some c"
    by (intro at_end_replicate) simp_all
  ultimately have e9: "at_end 1 (EMA_calculate 9 (map close cs)) = Some c"
    by (simp only:)
  have "EMA_calculate 21 (map close cs) = replicate (?n - 21 + 1) c"
    unfolding m using assms(1) by (intro EMA_calculate_replicate) simp_all
  moreover have "at_end 1 (replicate (?n - 21 + 1) c) = Some c"
    by (intro at_end_replicate) simp_all
  ultimately have e21: "at_end 1 (EMA_calculate 21 (map close cs)) = Some c"
    by (simp only:)
  have "RSI_calculate 14 (map close cs) = replicate (?n - 14) 100"
    unfolding m using assms(1) by (intro RSI_calculate_replicate) simp_all
  moreover have "at_end 1 (replicate (?n - 14) (100::real)) = Some 100"
    using assms(1) by (intro at_end_replicate) simp_all
  ultimately have r: "at_end 1 (RSI_calculate 14 (map close cs)) = Some 100"
    by (simp only:)
  have ne: "cs \<noteq> []" using assms(1) by auto
  then have lst: "close (last cs) = c" using assms(2) by simp
  have t: "toFixed 2 100 = 100" by (simp add: toFixed_def)
  have "analyzeMarket (Some cs) =
           Inr \<lparr>signal = HOLD, confidence = Num 0,
                indicators = \<lparr>ema9 = toFixed 6 c, ema21 = toFixed 6 c, rsi = 100\<rparr>,
                trend = NEUTRAL, crossover = \<lparr>bullish = False, bearish = False\<rparr>,
                currentPrice = c\<rparr>"
    unfolding analyzeMarket_value[OF assms(1) e9 e21 r refl refl] by (simp add: lst t)
  moreover have "\<forall>n. c * 10 ^ 6 = real_of_int n \<longrightarrow> toFixed 6 c = c"
    using toFixed_of_int by blast
  ultimately show ?thesis using e9 e21 r by blast
qed


lemma steady_closes: "\<forall>x \<in> set steadyCandles. close x = 0.5"
  by (simp add: steadyCandles_def zigCandle_def)




text \<open>
  Claim C3. \<open>analyzeMarket\<close> fails with \<open>InsufficientDataError\<close> exactly when it is
  given fewer than 21 candles, and \<open>calculateDynamicRisk\<close> exactly when it is given
  fewer than 5; a failure is a value \<open>Inl\<close>, which carries no result.
\<close>

theorem insufficient_data:
  "(analyzeMarket (Some cs) = Inl InsufficientDataError \<longleftrightarrow> length cs < 21)
   \<and> (calculateDynamicRisk (Some sg) (Some cs') ep ps = Inl InsufficientDataError
        \<longleftrightarrow> length cs' < 5)"
  by (simp add: analyzeMarket_insufficient)
     (simp add: calculateDynamicRisk_def Let_def split: option.splits)

lemma steadySignal_eval:
  "analyzeMarket (Some steadyCandles) = Inr steadySignal"
proof -
  have len: "21 \<le> length steadyCandles" by (simp add: steadyCandles_def)
  have t: "toFixed 6 (0.5::real) = 0.5" by (simp add: toFixed_def)
  from analyzeMarket_constant[OF len steady_closes] t show ?thesis
    by (simp add: steadySignal_def)
qed

text \<open>The theorem of C5 at the zigzag (BUY) and at the constant candles (HOLD).\<close>

theorem analyzeMarket_signal_rule_witness:
  "analyzeMarket (Some zigCandles) = Inr zigSignal \<and> signal zigSignal = BUY
   \<and> analyzeMarket (Some steadyCandles) = Inr steadySignal
   \<and> signal steadySignal = HOLD \<and> confidence steadySignal = Num 0"
proof -
  from analyzeMarket_signal_rule[OF zigSignal_eval] obtain f s r where
    a: "at_end 1 (EMA_calculate 9 (map close zigCandles)) = Some f"
       "at_end 1 (EMA_calculate 21 (map close zigCandles)) = Some s"
       "at_end 1 (RSI_calculate 14 (map close zigCandles)) = Some r"
    and k: "signal zigSignal = (if f > s \<and> 50 < r \<and> r < 70 then BUY
                           else if f < s \<and> 30 < r \<and> r < 50 then SELL
                           else HOLD)"
    by blast
  have "Some f = Some (9089 / 9)" using a(1) zig_ema9 by (simp only:)
  then have f: "f = 9089 / 9" by (simp only: option.inject)
  have "Some s = Some (21143 / 21)" using a(2) zig_ema21 by (simp only:)
  then have s: "s = 21143 / 21" by (simp only: option.inject)
  have "Some r = Some (33492518100 / 533295743)" using a(3) zig_rsi by (simp only:)
  then have r: "r = 33492518100 / 533295743" by (simp only: option.inject)
  from k have "signal zigSignal = (if (9089 / 9 :: real) > 21143 / 21
            \<and> 50 < (33492518100 / 533295743 :: real) \<and> (33492518100 / 533295743 :: real) < 70
          then BUY else if (9089 / 9 :: real) < 21143 / 21
            \<and> 30 < (33492518100 / 533295743 :: real) \<and> (33492518100 / 533295743 :: real) < 50
          then SELL else HOLD)" unfolding f s r .
  then have b: "signal zigSignal = BUY" by simp
  from analyzeMarket_signal_rule[OF steadySignal_eval]
  have "signal steadySignal = HOLD \<longrightarrow> confidence steadySignal = Num 0" by blast
  moreover have h: "signal steadySignal = HOLD" by (simp add: steadySignal_def)
  ultimately have c: "confidence steadySignal = Num 0" by blast
  from zigSignal_eval b steadySignal_eval h c show ?thesis by blast
qed

lemma zig_positive: "\<forall>c \<in> set zigCandles. 0 < close c"
  by (simp add: zigCandles_def zigCloses_def zigCandle_def)

text \<open>The theorem of C6 at the zigzag: the score 68.06 is reported as 68.\<close>

theorem analyzeMarket_confidence_witness:
  "analyzeMarket (Some zigCandles) = Inr zigSignal
   \<and> list_all (\<lambda>c. 0 < close c) zigCandles
   \<and> signal zigSignal = BUY
   \<and> confidence zigSignal
        = Num (min (Math_round (confidenceScore (9089 / 9) (21143 / 21) True False)) 100)
   \<and> confidence zigSignal = Num 68"
proof -
  have b: "signal zigSignal = BUY" by (simp add: zigSignal_def)
  have x: "bullish (crossover zigSignal) = False" by (simp add: zigSignal_def)
  have w: "(55 \<le> (33492518100 / 533295743 :: real) \<and> (33492518100 / 533295743 :: real) \<le> 65) = True"
    by simp
  from analyzeMarket_confidence[OF zigSignal_eval zig_positive] obtain f s r where
    a: "at_end 1 (EMA_calculate 9 (map close zigCandles)) = Some f"
       "at_end 1 (EMA_calculate 21 (map close zigCandles)) = Some s"
       "at_end 1 (RSI_calculate 14 (map close zigCandles)) = Some r"
    and k: "signal zigSignal = BUY \<longrightarrow>
                 confidence zigSignal
                   = Num (min (Math_round (confidenceScore f s (55 \<le> r \<and> r \<le> 65)
                                             (bullish (crossover zigSignal)))) 100)"
    by blast
  have "Some f = Some (9089 / 9)" using a(1) zig_ema9 by (simp only:)
  then have f: "f = 9089 / 9" by (simp only: option.inject)
  have "Some s = Some (21143 / 21)" using a(2) zig_ema21 by (simp only:)
  then have s: "s = 21143 / 21" by (simp only: option.inject)
  have "Some r = Some (33492518100 / 533295743)" using a(3) zig_rsi by (simp only:)
  then have r: "r = 33492518100 / 533295743" by (simp only: option.inject)
  from k b have "confidence zigSignal
        = Num (min (Math_round (confidenceScore (9089 / 9) (21143 / 21)
             (55 \<le> (33492518100 / 533295743 :: real) \<and> (33492518100 / 533295743 :: real) \<le> 65)
             (bullish (crossover zigSignal)))) 100)" unfolding f s r by blast
  then have c: "confidence zigSignal
        = Num (min (Math_round (confidenceScore (9089 / 9) (21143 / 21) True False)) 100)"
    by (simp only: x w)
  have "confidence zigSignal = Num 68" by (simp add: zigSignal_def)
  moreover have "list_all (\<lambda>c. 0 < close c) zigCandles"
    using zig_positive by (simp only: list_all_iff)
  ultimately show ?thesis using zigSignal_eval b c by blast
qed

text \<open>
  Claim C6 as stated fails on the zigzag: the specification's sum, capped at 100, is
  4316885 / 63429 (about 68.06), and the code returns 68.
\<close>

theorem confidence_rounded_counterexample:
  "analyzeMarket (Some zigCandles) = Inr zigSignal
   \<and> signal zigSignal = BUY \<and> confidence zigSignal = Num 68
   \<and> bullish (crossover zigSignal) = False
   \<and> at_end 1 (EMA_calculate 9 (map close zigCandles)) = Some (9089 / 9)
   \<and> at_end 1 (EMA_calculate 21 (map close zigCandles)) = Some (21143 / 21)
   \<and> at_end 1 (RSI_calculate 14 (map close zigCandles)) = Some (33492518100 / 533295743)
   \<and> confidence_spec (9089 / 9) (21143 / 21) (33492518100 / 533295743) BUY False
        = 4316885 / 63429
   \<and> (4316885 / 63429 :: real) \<noteq> 68"
proof -
  have "confidence_spec (9089 / 9) (21143 / 21) (33492518100 / 533295743) BUY False
        = 4316885 / 63429"
    by (simp add: confidence_spec_def confidenceScore_def sweetSpot_def)
  moreover have "(4316885 / 63429 :: real) \<noteq> 68" by simp
  moreover have "signal zigSignal = BUY \<and> confidence zigSignal = Num 68
      \<and> bullish (crossover zigSignal) = False" by (simp add: zigSignal_def)
  ultimately show ?thesis using zigSignal_eval zig_ema9 zig_ema21 zig_rsi by blast
qed

section \<open>Properties of the risk calculation\<close>


text \<open>Rounding to a fixed number of decimals is monotone.\<close>

lemma toFixed_mono: "x \<le> y \<Longrightarrow> toFixed d x \<le> toFixed d y"
proof -
  assume xy: "x \<le> y"
  define r where "r = (\<lambda>z::real. real_of_int \<lfloor>z * 10 ^ d + 1 / 2\<rfloor> / 10 ^ d)"
  have tf: "toFixed d z = (if 0 \<le> z then r z else - r (- z))" for z
    by (simp add: toFixed_def r_def)
  have nonneg: "0 \<le> r z" if "0 \<le> z" for z
  proof -
    from that have "0 \<le> z * 10 ^ d + 1 / 2" by simp
    then have "0 \<le> \<lfloor>z * 10 ^ d + 1 / 2\<rfloor>" by simp
    then show ?thesis by (simp add: r_def)
  qed
  have mono: "r a \<le> r b" if "a \<le> b" for a b
  proof -
    from that have "a * 10 ^ d + 1 / 2 \<le> b * 10 ^ d + 1 / 2" by simp
    then have "\<lfloor>a * 10 ^ d + 1 / 2\<rfloor> \<le> \<lfloor>b * 10 ^ d + 1 / 2\<rfloor>" by (rule floor_mono)
    then show ?thesis by (simp add: r_def divide_right_mono)
  qed
  consider "0 \<le> x" | "x < 0" "0 \<le> y" | "y < 0" using xy by linarith
  then show ?thesis
  proof cases
    case 1
    then have "0 \<le> y" using xy by simp
    with 1 mono[OF xy] show ?thesis by (simp only: tf if_True)
  next
    case 2
    have "0 \<le> r (- x)" using 2 nonneg[of "- x"] by simp
    moreover have "0 \<le> r y" using 2 nonneg[of y] by simp
    moreover have "toFixed d x = - r (- x)" using 2 by (simp add: tf)
    moreover have "toFixed d y = r y" using 2 by (simp add: tf)
    ultimately show ?thesis by linarith
  next
    case 3
    then have x0: "x < 0" using xy by simp
    have "r (- y) \<le> r (- x)" using xy mono[of "- y" "- x"] by simp
    moreover have "toFixed d x = - r (- x)" using x0 by (simp add: tf)
    moreover have "toFixed d y = - r (- y)" using 3 by (simp add: tf)
    ultimately show ?thesis by linarith
  qed
qed

lemma calculateDynamicRisk_trade:
  assumes "5 \<le> length cs" and "0 < resolveEntry ep sg"
    and "tradeLevels (signal sg) cs (resolveEntry ep sg) = Some (sd, sl, tp)"
  shows "calculateDynamicRisk (Some sg) (Some cs) ep ps =
     Inr \<lparr>rp_signal = signal sg, side = Some sd,
          entry = toFixed 6 (resolveEntry ep sg),
          stopLoss = Some (toFixed 6 sl),
          takeProfit = Some (toFixed 6 tp),
          quantity = toFixed 4 (withDefault 100 ps / resolveEntry ep sg),
          positionSizeUSDT = withDefault 100 ps,
          riskRewardRatio = toFixedN 2 (js_div \<bar>tp - resolveEntry ep sg\<bar> \<bar>resolveEntry ep sg - sl\<bar>),
          riskAmount = toFixed 2 (\<bar>resolveEntry ep sg - sl\<bar> * (withDefault 100 ps / resolveEntry ep sg)),
          potentialProfit = toFixed 2 (\<bar>tp - resolveEntry ep sg\<bar> * (withDefault 100 ps / resolveEntry ep sg)),
          stopLossPercent = Some (toFixed 2 (\<bar>resolveEntry ep sg - sl\<bar> / resolveEntry ep sg * 100)),
          takeProfitPercent = Some (toFixed 2 (\<bar>tp - resolveEntry ep sg\<bar> / resolveEntry ep sg * 100))\<rparr>"
  using assms by (simp add: calculateDynamicRisk_def Let_def)

lemma calculateDynamicRisk_Inr:
  assumes "calculateDynamicRisk (Some sg) (Some cs) ep ps = Inr rp"
  shows "5 \<le> length cs \<and> 0 < resolveEntry ep sg"
  using assms by (simp add: calculateDynamicRisk_def Let_def split: if_splits)

lemma tradeLevels_BUY:
  "tradeLevels BUY cs e = Some (LONG, longStopLoss cs, e + (e - longStopLoss cs) * 2)"
  by (simp add: tradeLevels_def Let_def)

lemma tradeLevels_SELL:
  "tradeLevels SELL cs e = Some (SHORT, shortStopLoss cs, e - (shortStopLoss cs - e) * 2)"
  by (simp add: tradeLevels_def Let_def)





lemmas risk_eval =
  calculateDynamicRisk_def resolveEntry_def tradeLevels_def longStopLoss_def
  shortStopLoss_def slice_last_def Math_min_def Math_max_def bufferPercent_def Let_def
  withDefault_def
  js_div_def toFixedN_def toFixed_def

lemmas mock_eval = mockSignal_def mockCandles_def mockCandle_def

lemma mockRisk_eval:
  "calculateDynamicRisk (Some mockSignal) (Some mockCandles) None None = Inr mockRisk"
  by (simp add: risk_eval mock_eval mockRisk_def)

lemma mock_longStopLoss: "longStopLoss mockCandles = 0.512425"
  by (simp add: risk_eval mock_eval)

lemma mock_shortStopLoss: "shortStopLoss mockCandles = 0.557775"
  by (simp add: risk_eval mock_eval)



text \<open>
  Claim C2. For a BUY signal with a positive risk distance \<open>entry - stopLoss\<close> the
  returned levels satisfy \<open>stopLoss \<le> entry \<le> takeProfit\<close>; for a SELL signal with a
  positive risk distance \<open>stopLoss - entry\<close> they satisfy
  \<open>takeProfit \<le> entry \<le> stopLoss\<close>.
\<close>

theorem calculateDynamicRisk_ordering:
  assumes "calculateDynamicRisk (Some sg) (Some cs) ep ps = Inr rp"
  shows "(signal sg = BUY \<and> 0 < resolveEntry ep sg - longStopLoss cs \<longrightarrow>
            (\<exists>sl tp. stopLoss rp = Some sl \<and> takeProfit rp = Some tp
                \<and> sl \<le> entry rp \<and> entry rp \<le> tp))
       \<and> (signal sg = SELL \<and> 0 < shortStopLoss cs - resolveEntry ep sg \<longrightarrow>
            (\<exists>sl tp. stopLoss rp = Some sl \<and> takeProfit rp = Some tp
                \<and> tp \<le> entry rp \<and> entry rp \<le> sl))"
proof -
  from assms have ok: "5 \<le> length cs" "0 < resolveEntry ep sg"
    using calculateDynamicRisk_Inr by blast+
  let ?e = "resolveEntry ep sg"
  have long: "\<exists>sl tp. stopLoss rp = Some sl \<and> takeProfit rp = Some tp
                \<and> sl \<le> entry rp \<and> entry rp \<le> tp"
    if b: "signal sg = BUY" and d: "0 < ?e - longStopLoss cs"
  proof -
    have lv: "tradeLevels (signal sg) cs ?e
               = Some (LONG, longStopLoss cs, ?e + (?e - longStopLoss cs) * 2)"
      using b by (simp add: tradeLevels_BUY)
    from calculateDynamicRisk_trade[OF ok lv, of ps] assms
    have "stopLoss rp = Some (toFixed 6 (longStopLoss cs))"
      and "takeProfit rp = Some (toFixed 6 (?e + (?e - longStopLoss cs) * 2))"
      and "entry rp = toFixed 6 ?e" by auto
    moreover have "toFixed 6 (longStopLoss cs) \<le> toFixed 6 ?e"
      using d by (intro toFixed_mono) simp
    moreover have "toFixed 6 ?e \<le> toFixed 6 (?e + (?e - longStopLoss cs) * 2)"
      using d by (intro toFixed_mono) simp
    ultimately show ?thesis by simp
  qed
  have short: "\<exists>sl tp. stopLoss rp = Some sl \<and> takeProfit rp = Some tp
                \<and> tp \<le> entry rp \<and> entry rp \<le> sl"
    if s: "signal sg = SELL" and d: "0 < shortStopLoss cs - ?e"
  proof -
    have lv: "tradeLevels (signal sg) cs ?e
               = Some (SHORT, shortStopLoss cs, ?e - (shortStopLoss cs - ?e) * 2)"
      using s by (simp add: tradeLevels_SELL)
    from calculateDynamicRisk_trade[OF ok lv, of ps] assms
    have "stopLoss rp = Some (toFixed 6 (shortStopLoss cs))"
      and "takeProfit rp = Some (toFixed 6 (?e - (shortStopLoss cs - ?e) * 2))"
      and "entry rp = toFixed 6 ?e" by auto
    moreover have "toFixed 6 ?e \<le> toFixed 6 (shortStopLoss cs)"
      using d by (intro toFixed_mono) simp
    moreover have "toFixed 6 (?e - (shortStopLoss cs - ?e) * 2) \<le> toFixed 6 ?e"
      using d by (intro toFixed_mono) simp
    ultimately show ?thesis by simp
  qed
  from long short show ?thesis by blast
qed

lemma mockRiskShort_eval:
  "calculateDynamicRisk (Some (mockSignal\<lparr>signal := SELL\<rparr>)) (Some mockCandles) None None
     = Inr mockRiskShort"
  by (simp add: risk_eval mock_eval mockRiskShort_def)

text \<open>The theorem of C2 at the fixtures, once for BUY and once for SELL.\<close>

theorem calculateDynamicRisk_ordering_witness:
  "(calculateDynamicRisk (Some mockSignal) (Some mockCandles) None None = Inr mockRisk
    \<and> signal mockSignal = BUY
    \<and> 0 < resolveEntry None mockSignal - longStopLoss mockCandles
    \<and> 0.512425 \<le> entry mockRisk \<and> entry mockRisk \<le> 0.61015)
   \<and> (calculateDynamicRisk (Some (mockSignal\<lparr>signal := SELL\<rparr>)) (Some mockCandles) None None
         = Inr mockRiskShort
    \<and> signal (mockSignal\<lparr>signal := SELL\<rparr>) = SELL
    \<and> 0 < shortStopLoss mockCandles - resolveEntry None (mockSignal\<lparr>signal := SELL\<rparr>)
    \<and> 0.51945 \<le> entry mockRiskShort \<and> entry mockRiskShort \<le> 0.557775)"
proof -
  have b: "signal mockSignal = BUY" by (simp add: mockSignal_def)
  have db: "0 < resolveEntry None mockSignal - longStopLoss mockCandles"
    by (simp add: mock_longStopLoss) (simp add: resolveEntry_def mockSignal_def)
  have s: "signal (mockSignal\<lparr>signal := SELL\<rparr>) = SELL" by simp
  have ds: "0 < shortStopLoss mockCandles - resolveEntry None (mockSignal\<lparr>signal := SELL\<rparr>)"
    by (simp add: mock_shortStopLoss) (simp add: resolveEntry_def mockSignal_def)
  from calculateDynamicRisk_ordering[OF mockRisk_eval] b db
  have "\<exists>sl tp. stopLoss mockRisk = Some sl \<and> takeProfit mockRisk = Some tp
                \<and> sl \<le> entry mockRisk \<and> entry mockRisk \<le> tp" by blast
  then have l: "0.512425 \<le> entry mockRisk \<and> entry mockRisk \<le> 0.61015"
    by (simp add: mockRisk_def)
  from calculateDynamicRisk_ordering[OF mockRiskShort_eval] s ds
  have "\<exists>sl tp. stopLoss mockRiskShort = Some sl \<and> takeProfit mockRiskShort = Some tp
                \<and> tp \<le> entry mockRiskShort \<and> entry mockRiskShort \<le> sl" by blast
  then have r: "0.51945 \<le> entry mockRiskShort \<and> entry mockRiskShort \<le> 0.557775"
    by (simp add: mockRiskShort_def)
  from mockRisk_eval b db l mockRiskShort_eval s ds r show ?thesis by blast
qed

lemma calculateDynamicRisk_HOLD:
  assumes "5 \<le> length cs" and "0 < resolveEntry ep sg" and "signal sg = HOLD"
  shows "calculateDynamicRisk (Some sg) (Some cs) ep ps =
     Inr \<lparr>rp_signal = HOLD, side = None, entry = resolveEntry ep sg,
          stopLoss = None, takeProfit = None, quantity = 0,
          positionSizeUSDT = 0, riskRewardRatio = Num 0,
          riskAmount = 0, potentialProfit = 0,
          stopLossPercent = None, takeProfitPercent = None\<rparr>"
  using assms by (simp add: calculateDynamicRisk_def Let_def tradeLevels_def)

text \<open>
  Claim C4, amended. With at least five candles, the entry price used is the override
  when one is provided and is not 0, and the current price of the signal otherwise; the
  call fails with \<open>InvalidEntryError\<close> exactly when the price so resolved is at most 0.
  A result carries that price, rounded to six decimals for a trade.
\<close>

theorem calculateDynamicRisk_entry:
  assumes "5 \<le> length cs"
  shows "(calculateDynamicRisk (Some sg) (Some cs) ep ps = Inl InvalidEntryError
            \<longleftrightarrow> resolveEntry ep sg \<le> 0)
       \<and> (\<forall>rp. calculateDynamicRisk (Some sg) (Some cs) ep ps = Inr rp \<longrightarrow>
             entry rp = (if signal sg = HOLD then resolveEntry ep sg
                         else toFixed 6 (resolveEntry ep sg)))
       \<and> (\<forall>e. ep = Some e \<and> e \<noteq> 0 \<longrightarrow> resolveEntry ep sg = e)
       \<and> (ep = None \<or> ep = Some 0 \<longrightarrow> resolveEntry ep sg = currentPrice sg)"
proof -
  have fails: "calculateDynamicRisk (Some sg) (Some cs) ep ps = Inl InvalidEntryError
            \<longleftrightarrow> resolveEntry ep sg \<le> 0"
    using assms
    by (auto simp add: calculateDynamicRisk_def Let_def split: option.splits)
  have used: "entry rp = (if signal sg = HOLD then resolveEntry ep sg
                         else toFixed 6 (resolveEntry ep sg))"
    if r: "calculateDynamicRisk (Some sg) (Some cs) ep ps = Inr rp" for rp
  proof -
    from r have pos: "0 < resolveEntry ep sg" using calculateDynamicRisk_Inr by blast
    show ?thesis
    proof (cases "signal sg")
      case BUY
      with calculateDynamicRisk_trade[OF assms pos, of LONG] r show ?thesis
        by (auto simp add: tradeLevels_BUY)
    next
      case SELL
      with calculateDynamicRisk_trade[OF assms pos, of SHORT] r show ?thesis
        by (auto simp add: tradeLevels_SELL)
    next
      case HOLD
      with calculateDynamicRisk_HOLD[OF assms pos HOLD, of ps] r show ?thesis by auto
    qed
  qed
  have rule: "(\<forall>e. ep = Some e \<and> e \<noteq> 0 \<longrightarrow> resolveEntry ep sg = e)
       \<and> (ep = None \<or> ep = Some 0 \<longrightarrow> resolveEntry ep sg = currentPrice sg)"
    by (auto simp add: resolveEntry_def)
  from fails used rule show ?thesis by blast
qed

text \<open>The theorem of C4 at the fixtures, with the override 0.55 of the tests and without.\<close>

theorem calculateDynamicRisk_entry_witness:
  "5 \<le> length mockCandles
   \<and> calculateDynamicRisk (Some mockSignal) (Some mockCandles) (Some 0.55) None
        \<noteq> Inl InvalidEntryError
   \<and> resolveEntry (Some 0.55) mockSignal = 0.55
   \<and> resolveEntry None mockSignal = currentPrice mockSignal"
proof -
  have h: "5 \<le> length mockCandles" by (simp add: mockCandles_def)
  have "\<not> resolveEntry (Some 0.55) mockSignal \<le> 0" by (simp add: resolveEntry_def)
  with calculateDynamicRisk_entry[OF h, of mockSignal "Some 0.55" None]
  have a: "calculateDynamicRisk (Some mockSignal) (Some mockCandles) (Some 0.55) None
        \<noteq> Inl InvalidEntryError" by blast
  have ne: "(0.55::real) \<noteq> 0" by simp
  from calculateDynamicRisk_entry[OF h, of mockSignal "Some 0.55" None] ne
  have b: "resolveEntry (Some 0.55) mockSignal = 0.55" by blast
  from calculateDynamicRisk_entry[OF h, of mockSignal None None]
  have c: "resolveEntry None mockSignal = currentPrice mockSignal" by blast
  from h a b c show ?thesis by blast
qed

text \<open>
  Claim C4 as stated fails for a negative override: the specification's rule skips it and
  resolves the valid current price 0.545, while the code uses the override and fails.
\<close>

theorem negative_override_counterexample:
  "calculateDynamicRisk (Some mockSignal) (Some mockCandles) (Some (- 1)) None
     = Inl InvalidEntryError
   \<and> resolveEntry_spec (Some (- 1)) mockSignal = 0.545
   \<and> \<not> resolveEntry_spec (Some (- 1)) mockSignal \<le> 0"
  by (simp add: calculateDynamicRisk_def resolveEntry_def resolveEntry_spec_def mock_eval)

section \<open>Properties of the risk validation\<close>


text \<open>
  Claim C7. For every risk parameters and limits, the result is valid exactly when none
  of the three checks fails; its reasons are the single informational entry when it is
  valid and otherwise the reasons of all violated checks in the order ratio, stop-loss,
  risk, one for each failed check whatever the others did; and \<open>riskPercent\<close> is
  returned in either case.
\<close>

theorem validateRiskParameters_checks:
  "valid (validateRiskParameters rp lims)
     = (\<not> ratioTooLow rp lims \<and> \<not> stopTooWide rp lims \<and> \<not> riskTooHigh rp lims)
   \<and> reasons (validateRiskParameters rp lims)
     = (if valid (validateRiskParameters rp lims) then [AllWithinLimits] else violations rp lims)
   \<and> riskPercent (validateRiskParameters rp lims) = toFixed 2 (riskAmount rp / 5000 * 100)
   \<and> length (violations rp lims)
     = (if ratioTooLow rp lims then 1 else 0) + (if stopTooWide rp lims then 1 else 0)
       + (if riskTooHigh rp lims then 1 else 0)"
  by (cases "ratioTooLow rp lims"; cases "stopTooWide rp lims"; cases "riskTooHigh rp lims")
     (simp_all add: validateRiskParameters_def violations_def Let_def
        ratioTooLow_def stopTooWide_def riskTooHigh_def split: option.splits)

text \<open>
  The theorem of C7 at parameters that violate all three limits, and at the valid
  parameters of the tests.
\<close>

theorem validateRiskParameters_checks_witness:
  "valid (validateRiskParameters badRiskParams noLimits) = False
   \<and> reasons (validateRiskParameters badRiskParams noLimits)
       = [RiskRewardBelowMinimum (Num 1) 1.5, StopLossExceedsMaximum 10 5,
          RiskExceedsMaximum 3 2]
   \<and> riskPercent (validateRiskParameters badRiskParams noLimits) = 3
   \<and> valid (validateRiskParameters mockRiskParams noLimits) = True
   \<and> reasons (validateRiskParameters mockRiskParams noLimits) = [AllWithinLimits]"
proof -
  have b: "ratioTooLow badRiskParams noLimits" "stopTooWide badRiskParams noLimits"
    "riskTooHigh badRiskParams noLimits"
    by (simp_all add: ratioTooLow_def stopTooWide_def riskTooHigh_def badRiskParams_def
        mockRiskParams_def noLimits_def withDefault_def)
  have v: "violations badRiskParams noLimits
       = [RiskRewardBelowMinimum (Num 1) 1.5, StopLossExceedsMaximum 10 5,
          RiskExceedsMaximum 3 2]"
  proof -
    have p: "stopLossPercent badRiskParams = Some 10" by (simp add: badRiskParams_def)
    show ?thesis
      by (simp add: violations_def b p)
         (simp add: badRiskParams_def mockRiskParams_def noLimits_def withDefault_def
            toFixed_def)
  qed
  have t: "toFixed 2 (riskAmount badRiskParams / 5000 * 100) = 3"
    by (simp add: badRiskParams_def mockRiskParams_def toFixed_def)
  have g: "\<not> ratioTooLow mockRiskParams noLimits" "\<not> stopTooWide mockRiskParams noLimits"
    "\<not> riskTooHigh mockRiskParams noLimits"
    by (simp_all add: ratioTooLow_def stopTooWide_def riskTooHigh_def
        mockRiskParams_def noLimits_def withDefault_def)
  from validateRiskParameters_checks[of badRiskParams noLimits] b v t
  have 1: "valid (validateRiskParameters badRiskParams noLimits) = False
   \<and> reasons (validateRiskParameters badRiskParams noLimits)
       = [RiskRewardBelowMinimum (Num 1) 1.5, StopLossExceedsMaximum 10 5,
          RiskExceedsMaximum 3 2]
   \<and> riskPercent (validateRiskParameters badRiskParams noLimits) = 3" by simp
  from validateRiskParameters_checks[of mockRiskParams noLimits] g
  have 2: "valid (validateRiskParameters mockRiskParams noLimits) = True
   \<and> reasons (validateRiskParameters mockRiskParams noLimits) = [AllWithinLimits]" by simp
  from 1 2 show ?thesis by blast
qed

section \<open>Properties of the rate limiter\<close>

lemma tryConsume_eq:
  "tryConsume now cost s =
     (if cost \<le> refilled now s
      then (True, s\<lparr>tokens := refilled now s - cost, lastRefill := now\<rparr>)
      else (False, s\<lparr>tokens := refilled now s, lastRefill := now\<rparr>))"
  by (simp add: tryConsume_def refillTokens_def refilled_def Let_def)

lemma refilled_range:
  assumes "bucketInvariant s" and "0 \<le> refillRate s" and "lastRefill s \<le> now"
  shows "0 \<le> refilled now s \<and> refilled now s \<le> maxTokens s"
proof -
  have "0 \<le> real_of_int (now - lastRefill s) / 1000 * refillRate s"
    using assms(2,3) by simp
  then show ?thesis using assms(1) by (simp add: refilled_def bucketInvariant_def)
qed

lemma applyOp_invariant:
  assumes "bucketInvariant s" and "0 \<le> refillRate s" and "lastRefill s \<le> opTime x"
    and "0 \<le> opCost x"
  shows "bucketInvariant (applyOp x s) \<and> refillRate (applyOp x s) = refillRate s
         \<and> maxTokens (applyOp x s) = maxTokens s \<and> lastRefill (applyOp x s) = opTime x"
proof (cases x)
  case (TryConsume now cost)
  with assms refilled_range[of s now] show ?thesis
    by (simp add: tryConsume_eq bucketInvariant_def)
next
  case (RefillTokens now)
  with assms refilled_range[of s now] show ?thesis
    by (simp add: refillTokens_def refilled_def bucketInvariant_def Let_def)
next
  case (Reset now)
  with assms show ?thesis by (simp add: reset_def bucketInvariant_def)
qed

lemma runOps_invariant:
  "bucketInvariant s \<Longrightarrow> 0 \<le> refillRate s \<Longrightarrow> wellTimed (lastRefill s) ops
     \<Longrightarrow> bucketInvariant (runOps ops s)"
proof (induction ops arbitrary: s)
  case Nil
  then show ?case by simp
next
  case (Cons x xs)
  from Cons.prems have t: "lastRefill s \<le> opTime x" "0 \<le> opCost x" "wellTimed (opTime x) xs"
    by simp_all
  from applyOp_invariant[OF Cons.prems(1,2) t(1,2)]
  have "bucketInvariant (applyOp x s)" "0 \<le> refillRate (applyOp x s)"
    "wellTimed (lastRefill (applyOp x s)) xs"
    using Cons.prems(2) t(3) by simp_all
  from Cons.IH[OF this] show ?case by simp
qed

text \<open>
  Claim C8, amended. \<open>tryConsume\<close> first refills the tokens to
  \<open>min(capacity, tokens + elapsedSeconds * refillRate)\<close>; it then succeeds and takes
  exactly \<open>cost\<close> tokens when the refilled count is at least \<open>cost\<close>, and otherwise
  fails and leaves the refilled count. For a limiter that starts with its tokens within
  \<open>[0, capacity]\<close> and has a non-negative refill rate, with clock readings that never
  decrease and non-negative costs, the tokens stay within \<open>[0, capacity]\<close> after
  \<open>tryConsume\<close>, after a refill and after a reset, and so after every well-timed run of
  such calls.
\<close>

theorem tryConsume_bucket:
  "tryConsume now cost s =
     (if cost \<le> refilled now s
      then (True, s\<lparr>tokens := refilled now s - cost, lastRefill := now\<rparr>)
      else (False, s\<lparr>tokens := refilled now s, lastRefill := now\<rparr>))
   \<and> (bucketInvariant s \<and> 0 \<le> refillRate s \<and> lastRefill s \<le> now \<and> 0 \<le> cost \<longrightarrow>
        bucketInvariant (snd (tryConsume now cost s)) \<and> bucketInvariant (refillTokens now s)
        \<and> bucketInvariant (reset now s))
   \<and> (bucketInvariant s \<and> 0 \<le> refillRate s \<and> wellTimed (lastRefill s) ops \<longrightarrow>
        bucketInvariant (runOps ops s))"
proof -
  have step: "bucketInvariant (snd (tryConsume now cost s)) \<and> bucketInvariant (refillTokens now s)
        \<and> bucketInvariant (reset now s)"
    if h: "bucketInvariant s" "0 \<le> refillRate s" "lastRefill s \<le> now" "0 \<le> cost"
  proof -
    from applyOp_invariant[of s "TryConsume now cost"] h
    have "bucketInvariant (snd (tryConsume now cost s))" by simp
    moreover from applyOp_invariant[of s "RefillTokens now"] h
    have "bucketInvariant (refillTokens now s)" by simp
    moreover from applyOp_invariant[of s "Reset now"] h
    have "bucketInvariant (reset now s)" by simp
    ultimately show ?thesis by blast
  qed
  from tryConsume_eq[of now cost s] step runOps_invariant[of s ops] show ?thesis by blast
qed









lemma drained_consume:
  "tryConsume 0 5 (newRateLimiter 0 5 5) = (True, drained)
   \<and> tryConsume 0 1 drained = (False, drained)"
  by (simp add: tryConsume_def refillTokens_def newRateLimiter_def drained_def Let_def)

text \<open>
  Claim C8 as stated fails when the clock goes back: on the limiter of the tests, drained
  at time 1000, an attempt at time 0 refills by minus five tokens and leaves the count
  at \<open>-5\<close>, outside \<open>[0, 5]\<close>.
\<close>

theorem clock_back_counterexample:
  "tryConsume 1000 5 (newRateLimiter 1000 5 5) = (True, drained\<lparr>lastRefill := 1000\<rparr>)
   \<and> bucketInvariant (drained\<lparr>lastRefill := 1000\<rparr>)
   \<and> tryConsume 0 1 (drained\<lparr>lastRefill := 1000\<rparr>)
       = (False, \<lparr>maxTokens = 5, tokens = - 5, refillRate = 5, lastRefill = 0\<rparr>)
   \<and> \<not> bucketInvariant \<lparr>maxTokens = 5, tokens = - 5, refillRate = 5, lastRefill = 0\<rparr>"
  by (simp add: tryConsume_def refillTokens_def newRateLimiter_def drained_def
      bucketInvariant_def Let_def)

text \<open>
  The theorem of C8 at the scenario of the tests: \<open>RateLimiter(5, 5)\<close>, consume 5, fail
  to consume 1, and find the bucket full again a second later.
\<close>

theorem tryConsume_bucket_witness:
  "bucketInvariant (newRateLimiter 0 5 5) \<and> 0 \<le> refillRate (newRateLimiter 0 5 5)
   \<and> lastRefill (newRateLimiter 0 5 5) \<le> 0 \<and> (0::real) \<le> 5
   \<and> wellTimed (lastRefill (newRateLimiter 0 5 5))
         [TryConsume 0 5, TryConsume 0 1, RefillTokens 1000]
   \<and> tryConsume 0 5 (newRateLimiter 0 5 5) = (True, drained)
   \<and> bucketInvariant drained
   \<and> bucketInvariant
         (runOps [TryConsume 0 5, TryConsume 0 1, RefillTokens 1000] (newRateLimiter 0 5 5))"
proof -
  let ?s = "newRateLimiter 0 5 5"
  let ?ops = "[TryConsume 0 5, TryConsume 0 1, RefillTokens 1000]"
  have h: "bucketInvariant ?s" "0 \<le> refillRate ?s" "lastRefill ?s \<le> 0" "(0::real) \<le> 5"
    by (simp_all add: bucketInvariant_def newRateLimiter_def)
  have w: "wellTimed (lastRefill ?s) ?ops" by (simp add: newRateLimiter_def)
  from tryConsume_bucket[of 0 5 ?s ?ops] h w
  have "bucketInvariant (snd (tryConsume 0 5 ?s))" and r: "bucketInvariant (runOps ?ops ?s)"
    by blast+
  then have "bucketInvariant drained" by (simp add: drained_consume)
  with h w r drained_consume show ?thesis by blast
qed



end
